theory Spec2Isabelle
  imports Main
begin

section \<open>The Python runtime as seen by the handle resolver\<close>

text \<open>
  \<^verbatim>\<open>dereference_handle\<close> exists twice in the repository: in
  \<^verbatim>\<open>hikari/internal/marshaller.c\<close> and in \<^verbatim>\<open>hikari/internal/marshaller.cpp\<close>.
  Both receive the handle as a C string (\<^verbatim>\<open>PyArg_ParseTuple\<close> with format
  \<^verbatim>\<open>"s"\<close>), here the list of its characters before the terminating NUL. Both
  talk to the interpreter through two calls only: importing a module by name and
  looking an attribute up by name. A call either gives an object or gives
  \<^verbatim>\<open>NULL\<close> with an exception pending, so a \<^verbatim>\<open>PyObject *\<close> is a value of
  \<open>'e + 'o\<close>: \<open>Inr v\<close> the object \<open>v\<close>, \<open>Inl e\<close> the null pointer with \<open>e\<close> pending.

  The module state is the pair of functions of a \<open>runtime\<close>; it does not change
  during a call. \<open>import_module\<close> stands for
  \<^verbatim>\<open>PyObject_CallFunction(_import_module, "s", name)\<close> in the C file, where
  \<^verbatim>\<open>_import_module\<close> is \<^verbatim>\<open>importlib.import_module\<close>, and for
  \<^verbatim>\<open>PyImport_ImportModule(name)\<close> in the C++ file; \<open>getattr\<close> stands for
  \<^verbatim>\<open>PyObject_GetAttrString\<close> on an object that is not null. Neither file looks
  at what \<^verbatim>\<open>PyArg_ParseTuple\<close> returns, so a call whose argument is not a string
  free of NUL lies outside the model, as do reference counts.
\<close>

record ('e, 'o) runtime =
  import_module :: "string \<Rightarrow> 'e + 'o"
  getattr :: "'o \<Rightarrow> string \<Rightarrow> 'e + 'o"

text \<open>The calls a run makes to the interpreter, in the order it makes them.\<close>

datatype 'o call = ImportCall string | GetAttrCall 'o string

text \<open>
  What a run ends with: the object returned, the exception left pending when
  \<^verbatim>\<open>NULL\<close> is returned, or no return at all because the process dereferenced a
  null pointer or read memory up to no terminator.
\<close>

datatype ('e, 'o) outcome = Returned 'o | Raised 'e | Crashed

fun of_pyobject :: "'e + 'o \<Rightarrow> ('e, 'o) outcome" where
  "of_pyobject (Inl e) = Raised e"
| "of_pyobject (Inr v) = Returned v"

section \<open>C strings and buffers\<close>

definition NUL :: char where
  "NUL = CHR 0x00"

text \<open>
  \<^verbatim>\<open>strstr(s, "c")\<close> for a needle of one character: the offset of its first
  occurrence in \<open>s\<close>, \<open>None\<close> for the null pointer.
\<close>

definition strstr :: "string \<Rightarrow> char \<Rightarrow> nat option" where
  "strstr s c = (if c \<in> set s then Some (length (takeWhile (\<lambda>x. x \<noteq> c) s)) else None)"

text \<open>
  A buffer obtained from \<^verbatim>\<open>malloc\<close> is the list of the bytes found at the address
  returned: the allocated ones, not initialised, and whatever lies behind them.
  \<^verbatim>\<open>strncpy(dst, src, n)\<close> overwrites the first \<open>n\<close> bytes with those of the C
  string \<open>src\<close>, padded with NUL when \<open>src\<close> is shorter, and writes no terminator
  when it is not.
\<close>

definition strncpy :: "string \<Rightarrow> string \<Rightarrow> nat \<Rightarrow> string" where
  "strncpy dst src n = take n (src @ replicate n NUL) @ drop n dst"

text \<open>
  Reading a buffer as a C string takes the bytes before the first NUL. With no NUL
  in the bytes there are, the read runs off them: \<open>None\<close>.
\<close>

definition c_str :: "string \<Rightarrow> string option" where
  "c_str bytes = (if NUL \<in> set bytes then Some (takeWhile (\<lambda>x. x \<noteq> NUL) bytes) else None)"

text \<open>
  The two blocks \<^verbatim>\<open>marshaller.c\<close> allocates: \<^verbatim>\<open>module_str\<close> in
  \<^verbatim>\<open>dereference_handle\<close> and \<^verbatim>\<open>temp\<close> in \<^verbatim>\<open>_recursive_getattr\<close>, each given by
  the bytes at its address when \<^verbatim>\<open>malloc\<close> returns. A failed allocation is not
  modelled.
\<close>

record heap =
  module_str_bytes :: string
  temp_bytes :: string

section \<open>marshaller.c\<close>

text \<open>
  \<^verbatim>\<open>PyObject_GetAttrString(obj, name)\<close> as the C file calls it: \<open>obj\<close> may be the
  null pointer left by an earlier failed lookup, which the call dereferences, and
  \<open>name\<close> is \<open>None\<close> when the buffer passed holds no terminator. Otherwise the
  lookup is made and recorded.
\<close>

definition PyObject_GetAttrString ::
  "('e, 'o) runtime \<Rightarrow> 'e + 'o \<Rightarrow> string option \<Rightarrow> (('e + 'o) \<times> 'o call) option" where
  "PyObject_GetAttrString rt obj name =
     (case obj of
        Inl e \<Rightarrow> None
      | Inr v \<Rightarrow>
          (case name of
             None \<Rightarrow> None
           | Some n \<Rightarrow> Some (getattr rt v n, GetAttrCall v n)))"

lemma takeWhile_shorter:
  assumes "c \<in> set s"
  shows "length (takeWhile (\<lambda>x. x \<noteq> c) s) < length s"
proof -
  have "dropWhile (\<lambda>x. x \<noteq> c) s \<noteq> []"
    using assms by (auto simp: dropWhile_eq_Nil_conv)
  moreover have "length s = length (takeWhile (\<lambda>x. x \<noteq> c) s)
      + length (dropWhile (\<lambda>x. x \<noteq> c) s)"
    by (metis length_append takeWhile_dropWhile_id)
  ultimately show ?thesis by simp
qed

lemma strstr_less: "strstr s c = Some d \<Longrightarrow> d < length s"
  by (auto simp: strstr_def takeWhile_shorter split: if_splits)

text \<open>
  \<^verbatim>\<open>_recursive_getattr\<close>: the \<^verbatim>\<open>while\<close> loop over the periods of \<open>attr_name\<close> and
  the lookup after it. \<open>temp\<close> is the buffer as the previous iteration left it,
  \<open>log\<close> the calls made so far.
\<close>

function recursive_getattr ::
  "('e, 'o) runtime \<Rightarrow> string \<Rightarrow> 'e + 'o \<Rightarrow> string \<Rightarrow> 'o call list
     \<Rightarrow> ('e, 'o) outcome \<times> 'o call list" where
  "recursive_getattr rt temp obj attr_name log =
     (case strstr attr_name CHR ''.'' of
        Some delim \<Rightarrow>
          (let temp' = strncpy temp attr_name delim in
           case PyObject_GetAttrString rt obj (c_str temp') of
             None \<Rightarrow> (Crashed, log)
           | Some (obj', call) \<Rightarrow>
               recursive_getattr rt temp' obj' (drop (delim + 1) attr_name) (log @ [call]))
      | None \<Rightarrow>
          (case PyObject_GetAttrString rt obj (Some attr_name) of
             None \<Rightarrow> (Crashed, log)
           | Some (obj', call) \<Rightarrow> (of_pyobject obj', log @ [call])))"
  by pat_completeness auto
termination
  by (relation "measure (\<lambda>(rt, temp, obj, attr_name, log). length attr_name)")
    (auto dest: strstr_less)

declare recursive_getattr.simps [simp del]

text \<open>
  \<^verbatim>\<open>dereference_handle\<close> of \<^verbatim>\<open>marshaller.c\<close>. \<open>h\<close> gives the bytes of the two
  allocations. \<^verbatim>\<open>module_str\<close> is \<^verbatim>\<open>malloc(module_len)\<close> filled by
  \<^verbatim>\<open>strncpy(module_str, handle_str, module_len)\<close> and then read as a C string by
  \<^verbatim>\<open>PyObject_CallFunction(_import_module, "s", module_str)\<close>.
\<close>

definition dereference_handle_c ::
  "('e, 'o) runtime \<Rightarrow> heap \<Rightarrow> string \<Rightarrow> ('e, 'o) outcome \<times> 'o call list" where
  "dereference_handle_c rt h handle_str =
     (case strstr handle_str CHR ''#'' of
        None \<Rightarrow> (of_pyobject (import_module rt handle_str), [ImportCall handle_str])
      | Some p_strstr \<Rightarrow>
          if p_strstr \<le> 1
          then (of_pyobject (import_module rt handle_str), [ImportCall handle_str])
          else
            (let module_len = p_strstr;
                 module_str = strncpy (module_str_bytes h) handle_str module_len
             in case c_str module_str of
                  None \<Rightarrow> (Crashed, [])
                | Some name \<Rightarrow>
                    (case import_module rt name of
                       Inl e \<Rightarrow> (Raised e, [ImportCall name])
                     | Inr module \<Rightarrow>
                         recursive_getattr rt (temp_bytes h) (Inr module)
                           (drop (p_strstr + 1) handle_str) [ImportCall name])))"

section \<open>marshaller.cpp\<close>

text \<open>\<^verbatim>\<open>std::string::find_first_of\<close> with one character; \<open>None\<close> is \<^verbatim>\<open>npos\<close>.\<close>

definition find_first_of :: "string \<Rightarrow> char \<Rightarrow> nat option" where
  "find_first_of s c = (if c \<in> set s then Some (length (takeWhile (\<lambda>x. x \<noteq> c) s)) else None)"

text \<open>
  \<^verbatim>\<open>std::getline(stream, token, delim)\<close> on the characters the stream has left:
  at the end of the stream it fails; otherwise the token is what precedes the next
  delimiter (or the end), and the delimiter is consumed.
\<close>

definition getline :: "string \<Rightarrow> char \<Rightarrow> (string \<times> string) option" where
  "getline stream delim =
     (if stream = [] then None
      else Some (takeWhile (\<lambda>x. x \<noteq> delim) stream,
                 drop 1 (dropWhile (\<lambda>x. x \<noteq> delim) stream)))"

lemma getline_shorter: "getline s d = Some (tok, rest) \<Longrightarrow> length rest < length s"
proof -
  assume a: "getline s d = Some (tok, rest)"
  then have ne: "s \<noteq> []" and r: "rest = drop 1 (dropWhile (\<lambda>x. x \<noteq> d) s)"
    by (auto simp: getline_def split: if_splits)
  show ?thesis
  proof (cases "dropWhile (\<lambda>x. x \<noteq> d) s")
    case Nil
    with ne r show ?thesis by simp
  next
    case (Cons y ys)
    have "length (dropWhile (\<lambda>x. x \<noteq> d) s) \<le> length s"
      by (rule length_dropWhile_le)
    with Cons r show ?thesis by simp
  qed
qed

text \<open>
  The \<^verbatim>\<open>while (std::getline(attr_name, token, '.'))\<close> loop of the C++
  \<^verbatim>\<open>dereference_handle\<close>, with its \<^verbatim>\<open>RETURN_IF_NULL(target)\<close>.
\<close>

function getline_loop ::
  "('e, 'o) runtime \<Rightarrow> 'o \<Rightarrow> string \<Rightarrow> 'o call list \<Rightarrow> ('e, 'o) outcome \<times> 'o call list" where
  "getline_loop rt target attr_name log =
     (case getline attr_name CHR ''.'' of
        None \<Rightarrow> (Returned target, log)
      | Some (token, rest) \<Rightarrow>
          (case getattr rt target token of
             Inl e \<Rightarrow> (Raised e, log @ [GetAttrCall target token])
           | Inr target' \<Rightarrow> getline_loop rt target' rest (log @ [GetAttrCall target token])))"
  by pat_completeness auto
termination
  by (relation "measure (\<lambda>(rt, target, attr_name, log). length attr_name)")
    (auto dest: getline_shorter)

declare getline_loop.simps [simp del]

definition dereference_handle_cpp ::
  "('e, 'o) runtime \<Rightarrow> string \<Rightarrow> ('e, 'o) outcome \<times> 'o call list" where
  "dereference_handle_cpp rt handle_str =
     (case find_first_of handle_str CHR ''#'' of
        None \<Rightarrow> (of_pyobject (import_module rt handle_str), [ImportCall handle_str])
      | Some hash_pos \<Rightarrow>
          (let module_name = take hash_pos handle_str
           in case import_module rt module_name of
                Inl e \<Rightarrow> (Raised e, [ImportCall module_name])
              | Inr module_obj \<Rightarrow>
                  getline_loop rt module_obj (drop (hash_pos + 1) handle_str)
                    [ImportCall module_name]))"

section \<open>The resolution rule of the specification\<close>

text \<open>
  The attribute walk as the specification words it: starting from the module
  object, fetch each segment of the chain in order, and fail at once with the error
  of the first lookup that fails. \<open>join_dots\<close> writes a chain of segments the way
  a handle carries it.
\<close>

fun lookup_chain ::
  "('e, 'o) runtime \<Rightarrow> 'o \<Rightarrow> string list \<Rightarrow> 'o call list \<Rightarrow> ('e, 'o) outcome \<times> 'o call list" where
  "lookup_chain rt current [] log = (Returned current, log)"
| "lookup_chain rt current (segment # segments) log =
     (case getattr rt current segment of
        Inl e \<Rightarrow> (Raised e, log @ [GetAttrCall current segment])
      | Inr v \<Rightarrow> lookup_chain rt v segments (log @ [GetAttrCall current segment]))"

fun join_dots :: "string list \<Rightarrow> string" where
  "join_dots [] = []"
| "join_dots [s] = s"
| "join_dots (s # t # ss) = s @ CHR ''.'' # join_dots (t # ss)"

text \<open>What the runtime answers to a call.\<close>

fun call_result :: "('e, 'o) runtime \<Rightarrow> 'o call \<Rightarrow> 'e + 'o" where
  "call_result rt (ImportCall name) = import_module rt name"
| "call_result rt (GetAttrCall v name) = getattr rt v name"

section \<open>A runtime to run the code on\<close>

text \<open>
  Objects are named by their dotted path. Four modules import; an attribute
  exists when the path it leads to is listed.
\<close>

definition demo_paths :: "string list" where
  "demo_paths = [''m.a'', ''m.a.b'', ''m.a.b.c'', ''m.x'', ''n.a'', ''mm.a'', ''mm.a.b'',
                 ''mm.abc'', ''mm.abc.d'', ''mm.abc.d.e'']"

definition demo :: "(string, string) runtime" where
  "demo = \<lparr> import_module =
              (\<lambda>name. if name \<in> set [''m'', ''mm'', ''n'', ''foo.bar'']
                       then Inr name else Inl (''ModuleNotFoundError: '' @ name)),
            getattr =
              (\<lambda>obj name. if (obj @ ''.'' @ name) \<in> set demo_paths
                           then Inr (obj @ ''.'' @ name)
                           else Inl (''AttributeError: '' @ name)) \<rparr>"

text \<open>A heap in which every byte \<^verbatim>\<open>malloc\<close> hands out is zero.\<close>

definition zeroed :: heap where
  "zeroed = \<lparr>module_str_bytes = replicate 16 NUL, temp_bytes = replicate 16 NUL\<rparr>"

section \<open>Splitting a handle\<close>

lemma takeWhile_upto:
  "c \<notin> set m \<Longrightarrow> takeWhile (\<lambda>x. x \<noteq> c) (m @ c # rest) = m"
  by (induction m) auto

lemma dropWhile_upto:
  "c \<notin> set m \<Longrightarrow> dropWhile (\<lambda>x. x \<noteq> c) (m @ c # rest) = c # rest"
  by (induction m) auto

lemma strstr_first: "c \<notin> set m \<Longrightarrow> strstr (m @ c # rest) c = Some (length m)"
  by (simp add: strstr_def takeWhile_upto)

lemma find_first_of_first: "c \<notin> set m \<Longrightarrow> find_first_of (m @ c # rest) c = Some (length m)"
  by (simp add: find_first_of_def takeWhile_upto)

lemma getline_last:
  assumes "seg \<noteq> []" "d \<notin> set seg"
  shows "getline seg d = Some (seg, [])"
proof -
  have all: "\<forall>x \<in> set seg. x \<noteq> d"
    using assms(2) by auto
  then have tw: "takeWhile (\<lambda>x. x \<noteq> d) seg = seg"
    by (simp add: takeWhile_eq_all_conv)
  from all have dw: "dropWhile (\<lambda>x. x \<noteq> d) seg = []"
    by (simp add: dropWhile_eq_Nil_conv)
  show ?thesis
    unfolding getline_def tw dw using assms(1) by simp
qed

lemma getline_segment:
  "d \<notin> set seg \<Longrightarrow> getline (seg @ d # rest) d = Some (seg, rest)"
  by (simp add: getline_def takeWhile_upto dropWhile_upto)

lemma getline_loop_end: "getline_loop rt target [] log = (Returned target, log)"
  by (simp add: getline_loop.simps getline_def)

lemma getline_loop_join_dots:
  assumes "\<forall>seg \<in> set segs. seg \<noteq> [] \<and> CHR ''.'' \<notin> set seg"
  shows "getline_loop rt target (join_dots segs) log = lookup_chain rt target segs log"
  using assms
proof (induction segs arbitrary: target log rule: join_dots.induct)
  case 1
  show ?case by (simp add: getline_loop_end)
next
  case (2 s)
  then have "getline s CHR ''.'' = Some (s, [])"
    by (simp add: getline_last)
  then show ?case
    by (simp add: getline_loop.simps [of rt target s] getline_loop_end split: sum.splits)
next
  case (3 s t ss)
  then have g: "getline (s @ CHR ''.'' # join_dots (t # ss)) CHR ''.'' = Some (s, join_dots (t # ss))"
    by (simp add: getline_segment)
  have "\<forall>seg \<in> set (t # ss). seg \<noteq> [] \<and> CHR ''.'' \<notin> set seg"
    using "3.prems" by simp
  then have ih: "\<And>target log. getline_loop rt target (join_dots (t # ss)) log
      = lookup_chain rt target (t # ss) log"
    by (rule "3.IH")
  show ?case
    using g ih
    by (simp add: getline_loop.simps [of rt target "s @ CHR ''.'' # join_dots (t # ss)"]
        split: sum.splits)
qed

lemma cpp_resolves_chain:
  assumes "CHR ''#'' \<notin> set m"
    and "\<forall>seg \<in> set segs. seg \<noteq> [] \<and> CHR ''.'' \<notin> set seg"
  shows "dereference_handle_cpp rt (m @ CHR ''#'' # join_dots segs) =
     (case import_module rt m of
        Inl e \<Rightarrow> (Raised e, [ImportCall m])
      | Inr module_obj \<Rightarrow> lookup_chain rt module_obj segs [ImportCall m])"
  using assms
  by (simp add: dereference_handle_cpp_def find_first_of_first getline_loop_join_dots
      split: sum.splits)

lemma cpp_three_segments:
  assumes "CHR ''#'' \<notin> set m"
    and "a \<noteq> []" "CHR ''.'' \<notin> set a" "b \<noteq> []" "CHR ''.'' \<notin> set b"
      "c \<noteq> []" "CHR ''.'' \<notin> set c"
    and "import_module rt m = Inr mo" "getattr rt mo a = Inr oa"
      "getattr rt oa b = Inr ob" "getattr rt ob c = Inr oc"
  shows "dereference_handle_cpp rt (m @ ''#'' @ a @ ''.'' @ b @ ''.'' @ c) =
     (Returned oc, [ImportCall m, GetAttrCall mo a, GetAttrCall oa b, GetAttrCall ob c])"
  using assms cpp_resolves_chain [of m "[a, b, c]" rt]
  by simp

lemma cpp_stops_at_first_failure:
  assumes "CHR ''#'' \<notin> set m"
    and "a \<noteq> []" "CHR ''.'' \<notin> set a" "b \<noteq> []" "CHR ''.'' \<notin> set b"
    and "\<forall>seg \<in> set segs. seg \<noteq> [] \<and> CHR ''.'' \<notin> set seg"
    and "import_module rt m = Inr mo" "getattr rt mo a = Inr oa" "getattr rt oa b = Inl e"
  shows "dereference_handle_cpp rt (m @ CHR ''#'' # join_dots (a # b # segs)) =
     (Raised e, [ImportCall m, GetAttrCall mo a, GetAttrCall oa b])"
  using assms cpp_resolves_chain [of m "a # b # segs" rt]
  by simp

lemma cpp_trailing_separator:
  assumes "CHR ''#'' \<notin> set m"
  shows "dereference_handle_cpp rt (m @ ''#'') = dereference_handle_cpp rt m"
  using assms find_first_of_first [of "CHR ''#''" m "[]"]
  by (simp add: dereference_handle_cpp_def getline_loop_end split: sum.splits)
     (simp add: find_first_of_def)

lemma c_short_module_imports_whole:
  assumes "strstr handle_str CHR ''#'' = Some p" "p \<le> 1"
  shows "dereference_handle_c rt h handle_str =
     (of_pyobject (import_module rt handle_str), [ImportCall handle_str])"
  using assms by (simp add: dereference_handle_c_def)

lemma cpp_splits_at_first_separator:
  assumes "CHR ''#'' \<in> set handle_str"
  shows "dereference_handle_cpp rt handle_str =
     (case import_module rt (takeWhile (\<lambda>x. x \<noteq> CHR ''#'') handle_str) of
        Inl e \<Rightarrow> (Raised e, [ImportCall (takeWhile (\<lambda>x. x \<noteq> CHR ''#'') handle_str)])
      | Inr module_obj \<Rightarrow>
          getline_loop rt module_obj (tl (dropWhile (\<lambda>x. x \<noteq> CHR ''#'') handle_str))
            [ImportCall (takeWhile (\<lambda>x. x \<noteq> CHR ''#'') handle_str)])"
proof -
  let ?P = "\<lambda>x. x \<noteq> CHR ''#''"
  have t: "take (length (takeWhile ?P handle_str)) handle_str = takeWhile ?P handle_str"
    by (rule takeWhile_eq_take [symmetric])
  have "drop (length (takeWhile ?P handle_str)) handle_str = dropWhile ?P handle_str"
    by (rule dropWhile_eq_drop [symmetric])
  then have d: "drop (length (takeWhile ?P handle_str) + 1) handle_str
      = tl (dropWhile ?P handle_str)"
    by (metis drop_Suc tl_drop Suc_eq_plus1)
  show ?thesis
    using assms unfolding dereference_handle_cpp_def find_first_of_def Let_def
    by (simp only: if_True option.case t d)
qed

lemma c_temp_keeps_earlier_segment:
  "dereference_handle_c demo zeroed ''mm#abc.d.e'' =
     (Crashed, [ImportCall ''mm'', GetAttrCall ''mm'' ''abc'', GetAttrCall ''mm.abc'' ''dbc''])"
  by code_simp

lemma cpp_walks_mm_abc_d_e:
  "dereference_handle_cpp demo ''mm#abc.d.e'' =
     (Returned ''mm.abc.d.e'', [ImportCall ''mm'', GetAttrCall ''mm'' ''abc'',
        GetAttrCall ''mm.abc'' ''d'', GetAttrCall ''mm.abc.d'' ''e''])"
  by code_simp

lemma recursive_getattr_imports_nothing:
  "ImportCall n \<in> set (snd (recursive_getattr rt temp obj attr_name log))
     \<Longrightarrow> ImportCall n \<in> set log"
proof (induction rt temp obj attr_name log rule: recursive_getattr.induct)
  case (1 rt temp obj attr_name log)
  show ?case
  proof (cases "strstr attr_name CHR ''.''")
    case None
    with "1.prems" show ?thesis
      by (auto simp: recursive_getattr.simps [of rt temp obj attr_name log]
          PyObject_GetAttrString_def split: sum.splits option.splits)
  next
    case (Some delim)
    show ?thesis
    proof (cases "PyObject_GetAttrString rt obj (c_str (strncpy temp attr_name delim))")
      case None
      with Some "1.prems" show ?thesis
        by (simp add: recursive_getattr.simps [of rt temp obj attr_name log])
    next
      case inner: (Some r)
      obtain obj' call where r: "r = (obj', call)"
        by (cases r)
      from inner r have g: "\<exists>v nm. call = GetAttrCall v nm"
        by (auto simp: PyObject_GetAttrString_def split: sum.splits option.splits)
      from Some inner r "1.prems"
      have "ImportCall n \<in> set (snd (recursive_getattr rt (strncpy temp attr_name delim) obj'
          (drop (delim + 1) attr_name) (log @ [call])))"
        by (simp add: recursive_getattr.simps [of rt temp obj attr_name log])
      then have "ImportCall n \<in> set (log @ [call])"
        using "1.IH" [OF Some refl inner [unfolded r]] by simp
      with g show ?thesis by auto
    qed
  qed
qed

lemma getline_loop_imports_nothing:
  "ImportCall n \<in> set (snd (getline_loop rt target attr_name log))
     \<Longrightarrow> ImportCall n \<in> set log"
proof (induction rt target attr_name log rule: getline_loop.induct)
  case (1 rt target attr_name log)
  show ?case
  proof (cases "getline attr_name CHR ''.''")
    case None
    with "1.prems" show ?thesis
      by (simp add: getline_loop.simps [of rt target attr_name log])
  next
    case (Some r)
    obtain token rest where r: "r = (token, rest)"
      by (cases r)
    show ?thesis
    proof (cases "getattr rt target token")
      case (Inl e)
      with Some r "1.prems" show ?thesis
        by (simp add: getline_loop.simps [of rt target attr_name log])
    next
      case (Inr target')
      with Some r "1.prems"
      have "ImportCall n \<in> set (snd (getline_loop rt target' rest
          (log @ [GetAttrCall target token])))"
        by (simp add: getline_loop.simps [of rt target attr_name log])
      then have "ImportCall n \<in> set (log @ [GetAttrCall target token])"
        using "1.IH" [OF Some [unfolded r] refl Inr] by simp
      then show ?thesis by simp
    qed
  qed
qed

lemma c_import_failure:
  assumes "ImportCall name \<in> set (snd (dereference_handle_c rt h handle_str))"
    and "import_module rt name = Inl e"
  shows "dereference_handle_c rt h handle_str = (Raised e, [ImportCall name])"
proof (cases "strstr handle_str CHR ''#''")
  case None
  with assms show ?thesis
    by (auto simp: dereference_handle_c_def)
next
  case (Some p)
  show ?thesis
  proof (cases "p \<le> 1")
    case True
    with Some assms show ?thesis
      by (auto simp: dereference_handle_c_def)
  next
    case False
    show ?thesis
    proof (cases "c_str (strncpy (module_str_bytes h) handle_str p)")
      case None
      with Some False assms show ?thesis
        by (simp add: dereference_handle_c_def)
    next
      case nm: (Some name0)
      show ?thesis
      proof (cases "import_module rt name0")
        case (Inl e0)
        with Some False nm assms show ?thesis
          by (auto simp: dereference_handle_c_def)
      next
        case (Inr module)
        with Some False nm assms(1)
        have "ImportCall name \<in> set (snd (recursive_getattr rt (temp_bytes h) (Inr module)
            (drop (p + 1) handle_str) [ImportCall name0]))"
          by (simp add: dereference_handle_c_def)
        then have "name = name0"
          using recursive_getattr_imports_nothing by fastforce
        with Inr assms(2) show ?thesis by simp
      qed
    qed
  qed
qed

lemma cpp_import_failure:
  assumes "ImportCall name \<in> set (snd (dereference_handle_cpp rt handle_str))"
    and "import_module rt name = Inl e"
  shows "dereference_handle_cpp rt handle_str = (Raised e, [ImportCall name])"
proof (cases "find_first_of handle_str CHR ''#''")
  case None
  with assms show ?thesis
    by (auto simp: dereference_handle_cpp_def)
next
  case (Some hash_pos)
  show ?thesis
  proof (cases "import_module rt (take hash_pos handle_str)")
    case (Inl e0)
    with Some assms show ?thesis
      by (auto simp: dereference_handle_cpp_def)
  next
    case (Inr module_obj)
    with Some assms(1)
    have "ImportCall name \<in> set (snd (getline_loop rt module_obj
        (drop (hash_pos + 1) handle_str) [ImportCall (take hash_pos handle_str)]))"
      by (simp add: dereference_handle_cpp_def)
    then have "name = take hash_pos handle_str"
      using getline_loop_imports_nothing by fastforce
    with Inr assms(2) show ?thesis by simp
  qed
qed

lemma cpp_module_reference_import_failure:
  assumes "import_module rt (takeWhile (\<lambda>x. x \<noteq> CHR ''#'') handle_str) = Inl e"
  shows "dereference_handle_cpp rt handle_str =
     (Raised e, [ImportCall (takeWhile (\<lambda>x. x \<noteq> CHR ''#'') handle_str)])"
proof (cases "CHR ''#'' \<in> set handle_str")
  case True
  then show ?thesis
    by (simp add: cpp_splits_at_first_separator assms)
next
  case False
  then have whole: "takeWhile (\<lambda>x. x \<noteq> CHR ''#'') handle_str = handle_str"
    by (auto simp: takeWhile_eq_all_conv)
  from assms have "import_module rt handle_str = Inl e"
    unfolding whole .
  with False show ?thesis
    unfolding whole by (simp add: dereference_handle_cpp_def find_first_of_def)
qed

lemma getline_loop_extends_log:
  "\<exists>calls. snd (getline_loop rt target attr_name log) = log @ calls"
proof (induction rt target attr_name log rule: getline_loop.induct)
  case (1 rt target attr_name log)
  show ?case
  proof (cases "getline attr_name CHR ''.''")
    case None
    then show ?thesis
      by (simp add: getline_loop.simps [of rt target attr_name log])
  next
    case (Some r)
    obtain token rest where r: "r = (token, rest)"
      by (cases r)
    show ?thesis
    proof (cases "getattr rt target token")
      case (Inl e)
      with Some r show ?thesis
        by (simp add: getline_loop.simps [of rt target attr_name log])
    next
      case (Inr target')
      from "1.IH" [OF Some [unfolded r] refl Inr]
      obtain calls where "snd (getline_loop rt target' rest (log @ [GetAttrCall target token]))
          = (log @ [GetAttrCall target token]) @ calls"
        by blast
      with Some r Inr show ?thesis
        by (simp add: getline_loop.simps [of rt target attr_name log])
    qed
  qed
qed

lemma cpp_begins_with_import:
  "\<exists>calls. snd (dereference_handle_cpp rt handle_str) =
     ImportCall (takeWhile (\<lambda>x. x \<noteq> CHR ''#'') handle_str) # calls"
proof (cases "CHR ''#'' \<in> set handle_str")
  case True
  show ?thesis
  proof (cases "import_module rt (takeWhile (\<lambda>x. x \<noteq> CHR ''#'') handle_str)")
    case (Inl e)
    with True show ?thesis
      by (simp add: cpp_splits_at_first_separator)
  next
    case (Inr module_obj)
    obtain calls where "snd (getline_loop rt module_obj
        (tl (dropWhile (\<lambda>x. x \<noteq> CHR ''#'') handle_str))
        [ImportCall (takeWhile (\<lambda>x. x \<noteq> CHR ''#'') handle_str)])
      = [ImportCall (takeWhile (\<lambda>x. x \<noteq> CHR ''#'') handle_str)] @ calls"
      using getline_loop_extends_log [of rt module_obj
          "tl (dropWhile (\<lambda>x. x \<noteq> CHR ''#'') handle_str)"
          "[ImportCall (takeWhile (\<lambda>x. x \<noteq> CHR ''#'') handle_str)]"]
      by blast
    with True Inr show ?thesis
      by (simp add: cpp_splits_at_first_separator)
  qed
next
  case False
  then have whole: "takeWhile (\<lambda>x. x \<noteq> CHR ''#'') handle_str = handle_str"
    by (auto simp: takeWhile_eq_all_conv)
  from False show ?thesis
    unfolding whole by (simp add: dereference_handle_cpp_def find_first_of_def)
qed

lemma of_pyobject_Raised: "of_pyobject r = Raised e \<longleftrightarrow> r = Inl e"
  by (cases r) auto

lemma recursive_getattr_error_is_last_call:
  "fst (recursive_getattr rt temp obj attr_name log) = Raised e \<Longrightarrow>
     snd (recursive_getattr rt temp obj attr_name log) \<noteq> []
     \<and> call_result rt (last (snd (recursive_getattr rt temp obj attr_name log))) = Inl e"
proof (induction rt temp obj attr_name log rule: recursive_getattr.induct)
  case (1 rt temp obj attr_name log)
  show ?case
  proof (cases "strstr attr_name CHR ''.''")
    case None
    with "1.prems" show ?thesis
      by (auto simp: recursive_getattr.simps [of rt temp obj attr_name log]
          PyObject_GetAttrString_def of_pyobject_Raised split: sum.splits option.splits)
  next
    case (Some delim)
    show ?thesis
    proof (cases "PyObject_GetAttrString rt obj (c_str (strncpy temp attr_name delim))")
      case None
      with Some "1.prems" show ?thesis
        by (simp add: recursive_getattr.simps [of rt temp obj attr_name log])
    next
      case inner: (Some r)
      obtain obj' call where r: "r = (obj', call)"
        by (cases r)
      have step: "recursive_getattr rt temp obj attr_name log =
          recursive_getattr rt (strncpy temp attr_name delim) obj'
            (drop (delim + 1) attr_name) (log @ [call])"
        using Some inner r
        by (simp add: recursive_getattr.simps [of rt temp obj attr_name log])
      from "1.prems" have "fst (recursive_getattr rt (strncpy temp attr_name delim) obj'
            (drop (delim + 1) attr_name) (log @ [call])) = Raised e"
        unfolding step .
      from "1.IH" [OF Some refl inner [unfolded r] refl this]
      show ?thesis unfolding step .
    qed
  qed
qed

lemma getline_loop_error_is_last_call:
  "fst (getline_loop rt target attr_name log) = Raised e \<Longrightarrow>
     snd (getline_loop rt target attr_name log) \<noteq> []
     \<and> call_result rt (last (snd (getline_loop rt target attr_name log))) = Inl e"
proof (induction rt target attr_name log rule: getline_loop.induct)
  case (1 rt target attr_name log)
  show ?case
  proof (cases "getline attr_name CHR ''.''")
    case None
    with "1.prems" show ?thesis
      by (simp add: getline_loop.simps [of rt target attr_name log])
  next
    case (Some r)
    obtain token rest where r: "r = (token, rest)"
      by (cases r)
    show ?thesis
    proof (cases "getattr rt target token")
      case (Inl e')
      with Some r "1.prems" show ?thesis
        by (simp add: getline_loop.simps [of rt target attr_name log])
    next
      case (Inr target')
      have step: "getline_loop rt target attr_name log =
          getline_loop rt target' rest (log @ [GetAttrCall target token])"
        using Some r Inr by (simp add: getline_loop.simps [of rt target attr_name log])
      from "1.prems" have "fst (getline_loop rt target' rest
          (log @ [GetAttrCall target token])) = Raised e"
        unfolding step .
      from "1.IH" [OF Some [unfolded r] refl Inr this]
      show ?thesis unfolding step .
    qed
  qed
qed

lemma c_error_is_last_call:
  assumes "fst (dereference_handle_c rt h handle_str) = Raised e"
  shows "snd (dereference_handle_c rt h handle_str) \<noteq> []
     \<and> call_result rt (last (snd (dereference_handle_c rt h handle_str))) = Inl e"
proof (cases "strstr handle_str CHR ''#''")
  case None
  with assms show ?thesis
    by (simp add: dereference_handle_c_def of_pyobject_Raised)
next
  case (Some p)
  show ?thesis
  proof (cases "p \<le> 1")
    case True
    with Some assms show ?thesis
      by (simp add: dereference_handle_c_def of_pyobject_Raised)
  next
    case False
    show ?thesis
    proof (cases "c_str (strncpy (module_str_bytes h) handle_str p)")
      case None
      with Some False assms show ?thesis
        by (simp add: dereference_handle_c_def)
    next
      case nm: (Some name0)
      show ?thesis
      proof (cases "import_module rt name0")
        case (Inl e0)
        with Some False nm assms show ?thesis
          by (simp add: dereference_handle_c_def)
      next
        case (Inr module)
        have run: "dereference_handle_c rt h handle_str =
            recursive_getattr rt (temp_bytes h) (Inr module)
              (drop (p + 1) handle_str) [ImportCall name0]"
          using Some False nm Inr by (simp add: dereference_handle_c_def)
        from assms show ?thesis
          unfolding run by (rule recursive_getattr_error_is_last_call)
      qed
    qed
  qed
qed

lemma cpp_error_is_last_call:
  assumes "fst (dereference_handle_cpp rt handle_str) = Raised e"
  shows "snd (dereference_handle_cpp rt handle_str) \<noteq> []
     \<and> call_result rt (last (snd (dereference_handle_cpp rt handle_str))) = Inl e"
proof (cases "find_first_of handle_str CHR ''#''")
  case None
  with assms show ?thesis
    by (simp add: dereference_handle_cpp_def of_pyobject_Raised)
next
  case (Some hash_pos)
  show ?thesis
  proof (cases "import_module rt (take hash_pos handle_str)")
    case (Inl e0)
    with Some assms show ?thesis
      by (simp add: dereference_handle_cpp_def)
  next
    case (Inr module_obj)
    have run: "dereference_handle_cpp rt handle_str =
        getline_loop rt module_obj (drop (hash_pos + 1) handle_str)
          [ImportCall (take hash_pos handle_str)]"
      using Some Inr by (simp add: dereference_handle_cpp_def)
    from assms show ?thesis
      unfolding run by (rule getline_loop_error_is_last_call)
  qed
qed

lemma cpp_walks_empty_segment:
  "dereference_handle_cpp rt ''m#a..b'' =
     (case import_module rt ''m'' of
        Inl e \<Rightarrow> (Raised e, [ImportCall ''m''])
      | Inr module_obj \<Rightarrow> lookup_chain rt module_obj [''a'', '''', ''b''] [ImportCall ''m''])"
  by (simp add: dereference_handle_cpp_def find_first_of_def getline_loop.simps getline_def
      split: sum.splits)

section \<open>Handles without a separator\<close>

text \<open>
  C6. For every handle containing no \<open>#\<close>, \<open>dereference_handle\<close> returns exactly
  what importing the entire handle string gives, and the import is the only call
  made: no attribute is looked up. This holds for the C file, whatever the heap
  holds, and for the C++ file.
\<close>

theorem no_separator_imports_whole_handle:
  assumes "CHR ''#'' \<notin> set handle_str"
  shows "dereference_handle_c rt h handle_str =
           (of_pyobject (import_module rt handle_str), [ImportCall handle_str])
       \<and> dereference_handle_cpp rt handle_str =
           (of_pyobject (import_module rt handle_str), [ImportCall handle_str])"
  using assms
  by (simp add: dereference_handle_c_def dereference_handle_cpp_def strstr_def find_first_of_def)

theorem no_separator_imports_whole_handle_witness:
  "CHR ''#'' \<notin> set ''foo.bar''
   \<and> dereference_handle_c demo \<lparr>module_str_bytes = ''??'', temp_bytes = ''??''\<rparr> ''foo.bar''
       = (Returned ''foo.bar'', [ImportCall ''foo.bar''])
   \<and> dereference_handle_cpp demo ''foo.bar'' = (Returned ''foo.bar'', [ImportCall ''foo.bar''])"
  using no_separator_imports_whole_handle
    [of "''foo.bar''" demo "\<lparr>module_str_bytes = ''??'', temp_bytes = ''??''\<rparr>"]
  by (simp add: demo_def)

section \<open>Handles with an attribute chain\<close>

text \<open>
  C1. For a handle \<open>m#a.b.c\<close> whose module imports and whose attributes all exist,
  \<open>dereference_handle\<close> is to return the object reached by looking up \<open>a\<close>, \<open>b\<close>
  and \<open>c\<close> in turn from the imported module. In the runtime \<open>demo\<close> the module
  \<open>m\<close> imports and \<open>m.a.b.c\<close> exists. On the handle \<open>m#a.b.c\<close> the C file,
  whatever the heap holds, imports the whole handle string as a module and looks
  nothing up; the C++ file walks the chain.
\<close>

theorem c_imports_whole_m_a_b_c:
  "dereference_handle_c demo h ''m#a.b.c'' =
     (Raised ''ModuleNotFoundError: m#a.b.c'', [ImportCall ''m#a.b.c''])
   \<and> dereference_handle_cpp demo ''m#a.b.c'' =
     (Returned ''m.a.b.c'', [ImportCall ''m'', GetAttrCall ''m'' ''a'',
        GetAttrCall ''m.a'' ''b'', GetAttrCall ''m.a.b'' ''c''])"
proof
  show "dereference_handle_c demo h ''m#a.b.c'' =
     (Raised ''ModuleNotFoundError: m#a.b.c'', [ImportCall ''m#a.b.c''])"
    by (simp add: dereference_handle_c_def strstr_def demo_def)
  show "dereference_handle_cpp demo ''m#a.b.c'' =
     (Returned ''m.a.b.c'', [ImportCall ''m'', GetAttrCall ''m'' ''a'',
        GetAttrCall ''m.a'' ''b'', GetAttrCall ''m.a.b'' ''c''])"
    by code_simp
qed

text \<open>
  C2. For a handle \<open>m#a.b\<close> where \<open>a\<close> exists on the module and \<open>b\<close> does not
  exist on \<open>a\<close>, resolution is to fail at once with the error of the lookup of
  \<open>b\<close>, and no lookup is to follow a failed one. In \<open>demo\<close> the module \<open>n\<close> has
  \<open>a\<close>, and \<open>n.a\<close> has no \<open>b\<close>. On \<open>n#a.b\<close> the C file fails with the error of
  importing the whole handle string and never looks \<open>b\<close> up; the C++ file fails
  with the error of the lookup of \<open>b\<close>. On \<open>mm#a.zz.c\<close>, with a zeroed heap, the
  C file goes on after the failed lookup of \<open>zz\<close> and calls
  \<^verbatim>\<open>PyObject_GetAttrString\<close> on the null pointer.
\<close>

theorem c_misses_failing_segment:
  "dereference_handle_c demo h ''n#a.b'' =
     (Raised ''ModuleNotFoundError: n#a.b'', [ImportCall ''n#a.b''])
   \<and> dereference_handle_cpp demo ''n#a.b'' =
     (Raised ''AttributeError: b'', [ImportCall ''n'', GetAttrCall ''n'' ''a'',
        GetAttrCall ''n.a'' ''b''])
   \<and> dereference_handle_c demo zeroed ''mm#a.zz.c'' =
     (Crashed, [ImportCall ''mm'', GetAttrCall ''mm'' ''a'', GetAttrCall ''mm.a'' ''zz''])
   \<and> dereference_handle_cpp demo ''mm#a.zz.c'' =
     (Raised ''AttributeError: zz'', [ImportCall ''mm'', GetAttrCall ''mm'' ''a'',
        GetAttrCall ''mm.a'' ''zz''])"
proof (intro conjI)
  show "dereference_handle_c demo h ''n#a.b'' =
     (Raised ''ModuleNotFoundError: n#a.b'', [ImportCall ''n#a.b''])"
    by (simp add: dereference_handle_c_def strstr_def demo_def)
  show "dereference_handle_cpp demo ''n#a.b'' =
     (Raised ''AttributeError: b'', [ImportCall ''n'', GetAttrCall ''n'' ''a'',
        GetAttrCall ''n.a'' ''b''])"
    by code_simp
  show "dereference_handle_c demo zeroed ''mm#a.zz.c'' =
     (Crashed, [ImportCall ''mm'', GetAttrCall ''mm'' ''a'', GetAttrCall ''mm.a'' ''zz''])"
    by code_simp
  show "dereference_handle_cpp demo ''mm#a.zz.c'' =
     (Raised ''AttributeError: zz'', [ImportCall ''mm'', GetAttrCall ''mm'' ''a'',
        GetAttrCall ''mm.a'' ''zz''])"
    by code_simp
qed

text \<open>
  C3. A handle that ends in a lone \<open>#\<close>, such as \<open>foo.bar#\<close>, is to behave as
  if the \<open>#\<close> were absent: the module is imported and returned, and no attribute
  is looked up. The C file never does so on \<open>foo.bar#\<close>, in any runtime and on
  any heap: once the import has succeeded it looks up the attribute with the empty
  name. The C++ file returns the module.
\<close>

theorem c_looks_up_empty_name_after_trailing_separator:
  "dereference_handle_c rt h ''foo.bar#'' \<noteq> (Returned v, [ImportCall ''foo.bar''])
   \<and> dereference_handle_c demo zeroed ''foo.bar#'' =
     (Raised ''AttributeError: '', [ImportCall ''foo.bar'', GetAttrCall ''foo.bar'' ''''])
   \<and> dereference_handle_cpp demo ''foo.bar#'' = (Returned ''foo.bar'', [ImportCall ''foo.bar''])"
proof (intro conjI)
  show "dereference_handle_c rt h ''foo.bar#'' \<noteq> (Returned v, [ImportCall ''foo.bar''])"
    by (simp add: dereference_handle_c_def strstr_def Let_def recursive_getattr.simps
        PyObject_GetAttrString_def split: option.splits sum.splits)
  show "dereference_handle_c demo zeroed ''foo.bar#'' =
     (Raised ''AttributeError: '', [ImportCall ''foo.bar'', GetAttrCall ''foo.bar'' ''''])"
    by code_simp
  show "dereference_handle_cpp demo ''foo.bar#'' = (Returned ''foo.bar'', [ImportCall ''foo.bar''])"
    by code_simp
qed

text \<open>
  C4. A handle with at least one character before its first \<open>#\<close> is to be split
  there: the text before is imported, the text after is walked as the attribute
  chain, also when the module reference is a single character as in \<open>m#x\<close>. The
  C file does not split \<open>m#x\<close>: in every runtime and on every heap it imports the
  string \<open>m#x\<close> and returns what that import gives. The C++ file splits it.
\<close>

theorem c_does_not_split_m_x:
  "dereference_handle_c rt h ''m#x'' =
     (of_pyobject (import_module rt ''m#x''), [ImportCall ''m#x''])
   \<and> dereference_handle_c demo h ''m#x'' =
     (Raised ''ModuleNotFoundError: m#x'', [ImportCall ''m#x''])
   \<and> dereference_handle_cpp demo ''m#x'' =
     (Returned ''m.x'', [ImportCall ''m'', GetAttrCall ''m'' ''x''])"
proof (intro conjI)
  show "dereference_handle_c rt h ''m#x'' =
     (of_pyobject (import_module rt ''m#x''), [ImportCall ''m#x''])"
    by (simp add: dereference_handle_c_def strstr_def)
  show "dereference_handle_c demo h ''m#x'' =
     (Raised ''ModuleNotFoundError: m#x'', [ImportCall ''m#x''])"
    by (simp add: dereference_handle_c_def strstr_def demo_def)
  show "dereference_handle_cpp demo ''m#x'' =
     (Returned ''m.x'', [ImportCall ''m'', GetAttrCall ''m'' ''x''])"
    by code_simp
qed

section \<open>A failed import\<close>

text \<open>
  C7. When the import of a handle's module fails, \<open>dereference_handle\<close> is to
  return with exactly the error that import left pending, and no attribute is to
  be looked up after it. The C++ file does so for every handle (lemma
  \<open>cpp_module_reference_import_failure\<close>). The C file does not import the
  handle's module reference. In \<open>demo\<close> neither \<open>zz\<close> nor \<open>fo\<close> nor \<open>z\<close>
  imports. On \<open>zz#a\<close> the C file reads \<^verbatim>\<open>module_str\<close> past the two bytes
  copied: with no NUL in the bytes there it makes no call at all, in any runtime,
  and with \<open>??\<close> behind them it fails with the error of importing \<open>zz??\<close>. On
  \<open>fo#a\<close>, with \<open>o.bar\<close> behind the two bytes, it imports \<open>foo.bar\<close> with
  success and goes on to look up \<open>a\<close>. On \<open>z#a\<close>, on any heap, the error is
  that of importing \<open>z#a\<close>.
\<close>

theorem c_imports_other_than_the_module_reference:
  "import_module demo ''zz'' = Inl ''ModuleNotFoundError: zz''
   \<and> dereference_handle_cpp demo ''zz#a'' =
        (Raised ''ModuleNotFoundError: zz'', [ImportCall ''zz''])
   \<and> dereference_handle_c rt \<lparr>module_str_bytes = ''??'', temp_bytes = t\<rparr> ''zz#a'' =
        (Crashed, [])
   \<and> dereference_handle_c demo
        \<lparr>module_str_bytes = ''????'' @ [NUL], temp_bytes = [NUL, NUL]\<rparr> ''zz#a'' =
        (Raised ''ModuleNotFoundError: zz??'', [ImportCall ''zz??''])
   \<and> import_module demo ''fo'' = Inl ''ModuleNotFoundError: fo''
   \<and> dereference_handle_cpp demo ''fo#a'' =
        (Raised ''ModuleNotFoundError: fo'', [ImportCall ''fo''])
   \<and> dereference_handle_c demo
        \<lparr>module_str_bytes = ''??o.bar'' @ [NUL], temp_bytes = [NUL, NUL]\<rparr> ''fo#a'' =
        (Raised ''AttributeError: a'', [ImportCall ''foo.bar'', GetAttrCall ''foo.bar'' ''a''])
   \<and> import_module demo ''z'' = Inl ''ModuleNotFoundError: z''
   \<and> dereference_handle_cpp demo ''z#a'' =
        (Raised ''ModuleNotFoundError: z'', [ImportCall ''z''])
   \<and> dereference_handle_c demo h ''z#a'' =
        (Raised ''ModuleNotFoundError: z#a'', [ImportCall ''z#a''])"
proof (intro conjI)
  show "import_module demo ''zz'' = Inl ''ModuleNotFoundError: zz''"
    by (simp add: demo_def)
  show "dereference_handle_cpp demo ''zz#a'' =
        (Raised ''ModuleNotFoundError: zz'', [ImportCall ''zz''])"
    by code_simp
  show "dereference_handle_c rt \<lparr>module_str_bytes = ''??'', temp_bytes = t\<rparr> ''zz#a'' =
        (Crashed, [])"
    by (simp add: dereference_handle_c_def strstr_def strncpy_def c_str_def NUL_def)
  show "dereference_handle_c demo
        \<lparr>module_str_bytes = ''????'' @ [NUL], temp_bytes = [NUL, NUL]\<rparr> ''zz#a'' =
        (Raised ''ModuleNotFoundError: zz??'', [ImportCall ''zz??''])"
    by code_simp
  show "import_module demo ''fo'' = Inl ''ModuleNotFoundError: fo''"
    by (simp add: demo_def)
  show "dereference_handle_cpp demo ''fo#a'' =
        (Raised ''ModuleNotFoundError: fo'', [ImportCall ''fo''])"
    by code_simp
  show "dereference_handle_c demo
        \<lparr>module_str_bytes = ''??o.bar'' @ [NUL], temp_bytes = [NUL, NUL]\<rparr> ''fo#a'' =
        (Raised ''AttributeError: a'', [ImportCall ''foo.bar'', GetAttrCall ''foo.bar'' ''a''])"
    by code_simp
  show "import_module demo ''z'' = Inl ''ModuleNotFoundError: z''"
    by (simp add: demo_def)
  show "dereference_handle_cpp demo ''z#a'' =
        (Raised ''ModuleNotFoundError: z'', [ImportCall ''z''])"
    by code_simp
  show "dereference_handle_c demo h ''z#a'' =
        (Raised ''ModuleNotFoundError: z#a'', [ImportCall ''z#a''])"
    by (simp add: dereference_handle_c_def strstr_def demo_def)
qed

section \<open>Malformed handles, leading separators, and the two files compared\<close>

text \<open>
  C5. The handles \<open>#x\<close> (empty module reference) and \<open>m#a..b\<close> (empty attribute
  segment) are to fail with a malformed-handle error before any import or attribute
  lookup is made. Neither file checks a handle for this: in \<open>demo\<close> both handles
  reach the import in both files, the C++ file goes on to look up the empty
  attribute name on \<open>m#a..b\<close>, and the errors are those of the import or lookup.
\<close>

theorem malformed_handles_reach_the_import:
  "snd (dereference_handle_cpp demo ''#x'') \<noteq> []
   \<and> dereference_handle_cpp demo ''#x'' = (Raised ''ModuleNotFoundError: '', [ImportCall ''''])
   \<and> dereference_handle_cpp demo ''m#a..b'' =
        (Raised ''AttributeError: '', [ImportCall ''m'', GetAttrCall ''m'' ''a'',
           GetAttrCall ''m.a'' ''''])
   \<and> dereference_handle_c demo zeroed ''#x'' =
        (Raised ''ModuleNotFoundError: #x'', [ImportCall ''#x''])
   \<and> dereference_handle_c demo zeroed ''m#a..b'' =
        (Raised ''ModuleNotFoundError: m#a..b'', [ImportCall ''m#a..b''])"
proof (intro conjI)
  show "snd (dereference_handle_cpp demo ''#x'') \<noteq> []"
    by code_simp
  show "dereference_handle_cpp demo ''#x'' = (Raised ''ModuleNotFoundError: '', [ImportCall ''''])"
    by code_simp
  show "dereference_handle_cpp demo ''m#a..b'' =
        (Raised ''AttributeError: '', [ImportCall ''m'', GetAttrCall ''m'' ''a'',
           GetAttrCall ''m.a'' ''''])"
    by code_simp
  show "dereference_handle_c demo zeroed ''#x'' =
        (Raised ''ModuleNotFoundError: #x'', [ImportCall ''#x''])"
    by code_simp
  show "dereference_handle_c demo zeroed ''m#a..b'' =
        (Raised ''ModuleNotFoundError: m#a..b'', [ImportCall ''m#a..b''])"
    by code_simp
qed

text \<open>
  C5 as amended. For the handles \<open>#x\<close> and \<open>m#a..b\<close> \<open>dereference_handle\<close> has
  no malformed-handle error: neither file checks the form of the handle. In both
  files, in every runtime and on every heap, the run on either handle begins with
  the import, and when it fails the error is the one the runtime returned to the
  last call the run made, an import or an attribute lookup.
\<close>

theorem malformed_handles_begin_with_the_import:
  "(\<exists>name calls. snd (dereference_handle_c rt h ''#x'') = ImportCall name # calls)
   \<and> (\<exists>name calls. snd (dereference_handle_cpp rt ''#x'') = ImportCall name # calls)
   \<and> (\<exists>name calls. snd (dereference_handle_c rt h ''m#a..b'') = ImportCall name # calls)
   \<and> (\<exists>name calls. snd (dereference_handle_cpp rt ''m#a..b'') = ImportCall name # calls)
   \<and> (fst (dereference_handle_c rt h ''#x'') = Raised e \<longrightarrow>
        call_result rt (last (snd (dereference_handle_c rt h ''#x''))) = Inl e)
   \<and> (fst (dereference_handle_cpp rt ''#x'') = Raised e \<longrightarrow>
        call_result rt (last (snd (dereference_handle_cpp rt ''#x''))) = Inl e)
   \<and> (fst (dereference_handle_c rt h ''m#a..b'') = Raised e \<longrightarrow>
        call_result rt (last (snd (dereference_handle_c rt h ''m#a..b''))) = Inl e)
   \<and> (fst (dereference_handle_cpp rt ''m#a..b'') = Raised e \<longrightarrow>
        call_result rt (last (snd (dereference_handle_cpp rt ''m#a..b''))) = Inl e)"
proof (intro conjI impI)
  show "\<exists>name calls. snd (dereference_handle_c rt h ''#x'') = ImportCall name # calls"
    by (simp add: dereference_handle_c_def strstr_def)
  show "\<exists>name calls. snd (dereference_handle_cpp rt ''#x'') = ImportCall name # calls"
    using cpp_begins_with_import [of rt "''#x''"] by blast
  show "\<exists>name calls. snd (dereference_handle_c rt h ''m#a..b'') = ImportCall name # calls"
    by (simp add: dereference_handle_c_def strstr_def)
  show "\<exists>name calls. snd (dereference_handle_cpp rt ''m#a..b'') = ImportCall name # calls"
    using cpp_begins_with_import [of rt "''m#a..b''"] by blast
next
  assume "fst (dereference_handle_c rt h ''#x'') = Raised e"
  then show "call_result rt (last (snd (dereference_handle_c rt h ''#x''))) = Inl e"
    by (simp add: c_error_is_last_call)
next
  assume "fst (dereference_handle_cpp rt ''#x'') = Raised e"
  then show "call_result rt (last (snd (dereference_handle_cpp rt ''#x''))) = Inl e"
    by (simp add: cpp_error_is_last_call)
next
  assume "fst (dereference_handle_c rt h ''m#a..b'') = Raised e"
  then show "call_result rt (last (snd (dereference_handle_c rt h ''m#a..b''))) = Inl e"
    by (simp add: c_error_is_last_call)
next
  assume "fst (dereference_handle_cpp rt ''m#a..b'') = Raised e"
  then show "call_result rt (last (snd (dereference_handle_cpp rt ''m#a..b''))) = Inl e"
    by (simp add: cpp_error_is_last_call)
qed

theorem malformed_handles_begin_with_the_import_witness:
  "fst (dereference_handle_c demo zeroed ''#x'') = Raised ''ModuleNotFoundError: #x''
   \<and> call_result demo (last (snd (dereference_handle_c demo zeroed ''#x'')))
        = Inl ''ModuleNotFoundError: #x''
   \<and> fst (dereference_handle_cpp demo ''#x'') = Raised ''ModuleNotFoundError: ''
   \<and> call_result demo (last (snd (dereference_handle_cpp demo ''#x'')))
        = Inl ''ModuleNotFoundError: ''
   \<and> fst (dereference_handle_c demo zeroed ''m#a..b'') = Raised ''ModuleNotFoundError: m#a..b''
   \<and> call_result demo (last (snd (dereference_handle_c demo zeroed ''m#a..b'')))
        = Inl ''ModuleNotFoundError: m#a..b''
   \<and> fst (dereference_handle_cpp demo ''m#a..b'') = Raised ''AttributeError: ''
   \<and> call_result demo (last (snd (dereference_handle_cpp demo ''m#a..b'')))
        = Inl ''AttributeError: ''"
proof -
  have c1: "fst (dereference_handle_c demo zeroed ''#x'') = Raised ''ModuleNotFoundError: #x''"
    by code_simp
  have p1: "fst (dereference_handle_cpp demo ''#x'') = Raised ''ModuleNotFoundError: ''"
    by code_simp
  have c2: "fst (dereference_handle_c demo zeroed ''m#a..b'')
      = Raised ''ModuleNotFoundError: m#a..b''"
    by code_simp
  have p2: "fst (dereference_handle_cpp demo ''m#a..b'') = Raised ''AttributeError: ''"
    by code_simp
  from c1 p1 c2 p2
    malformed_handles_begin_with_the_import [of demo zeroed "''ModuleNotFoundError: #x''"]
    malformed_handles_begin_with_the_import [of demo zeroed "''ModuleNotFoundError: ''"]
    malformed_handles_begin_with_the_import [of demo zeroed "''ModuleNotFoundError: m#a..b''"]
    malformed_handles_begin_with_the_import [of demo zeroed "''AttributeError: ''"]
  show ?thesis by blast
qed

text \<open>
  C9. A handle in which \<open>#\<close> is absent or is the very first character is to be
  imported as a whole, the module returned and nothing looked up. The C file does
  so for every handle that begins with \<open>#\<close>, in every runtime and on every heap.
  The C++ file never does: for a leading \<open>#\<close> the import is not the one call it
  makes with the whole handle. On \<open>#x\<close> it imports the empty name and, were that
  import to succeed, would look up \<open>x\<close>; in \<open>demo\<close> it fails with the error of
  importing the empty name where the C file fails with that of importing \<open>#x\<close>.
\<close>

theorem cpp_imports_empty_name_for_leading_separator:
  "snd (dereference_handle_cpp rt (CHR ''#'' # rest)) \<noteq> [ImportCall (CHR ''#'' # rest)]
   \<and> dereference_handle_cpp rt ''#x'' =
        (case import_module rt '''' of
           Inl e \<Rightarrow> (Raised e, [ImportCall ''''])
         | Inr module_obj \<Rightarrow> lookup_chain rt module_obj [''x''] [ImportCall ''''])
   \<and> dereference_handle_cpp demo ''#x'' =
        (Raised ''ModuleNotFoundError: '', [ImportCall ''''])
   \<and> dereference_handle_c rt h (CHR ''#'' # rest) =
        (of_pyobject (import_module rt (CHR ''#'' # rest)), [ImportCall (CHR ''#'' # rest)])
   \<and> dereference_handle_c demo h ''#x'' =
        (Raised ''ModuleNotFoundError: #x'', [ImportCall ''#x''])"
proof (intro conjI)
  obtain calls where "snd (dereference_handle_cpp rt (CHR ''#'' # rest)) = ImportCall [] # calls"
    using cpp_begins_with_import [of rt "CHR ''#'' # rest"] by auto
  then show "snd (dereference_handle_cpp rt (CHR ''#'' # rest)) \<noteq> [ImportCall (CHR ''#'' # rest)]"
    by simp
  show "dereference_handle_cpp rt ''#x'' =
        (case import_module rt '''' of
           Inl e \<Rightarrow> (Raised e, [ImportCall ''''])
         | Inr module_obj \<Rightarrow> lookup_chain rt module_obj [''x''] [ImportCall ''''])"
    by (simp add: dereference_handle_cpp_def find_first_of_def getline_loop.simps getline_def
        split: sum.splits)
  show "dereference_handle_cpp demo ''#x'' =
        (Raised ''ModuleNotFoundError: '', [ImportCall ''''])"
    by code_simp
  show "dereference_handle_c rt h (CHR ''#'' # rest) =
        (of_pyobject (import_module rt (CHR ''#'' # rest)), [ImportCall (CHR ''#'' # rest)])"
    by (simp add: dereference_handle_c_def strstr_def)
  show "dereference_handle_c demo h ''#x'' =
        (Raised ''ModuleNotFoundError: #x'', [ImportCall ''#x''])"
    by (simp add: dereference_handle_c_def strstr_def demo_def)
qed

text \<open>
  C8. Two calls with the same handle against the same module state are to give
  the same result. The result of the C file also depends on what the memory
  handed out by \<^verbatim>\<open>malloc\<close> holds, which is no part of the handle or of the module
  state: on \<open>mm#a.b\<close> in \<open>demo\<close> it returns \<open>mm.a.b\<close> when the bytes are zero, fails
  to import \<open>mm??\<close> when two other bytes follow the copied module name, and looks
  up \<open>ax\<close> when the second byte of the four allocated for \<^verbatim>\<open>temp\<close> is an \<open>x\<close>.
\<close>

theorem c_result_depends_on_uninitialised_memory:
  "dereference_handle_c demo
      \<lparr>module_str_bytes = [NUL, NUL, NUL], temp_bytes = [NUL, NUL, NUL, NUL]\<rparr> ''mm#a.b'' =
     (Returned ''mm.a.b'', [ImportCall ''mm'', GetAttrCall ''mm'' ''a'', GetAttrCall ''mm.a'' ''b''])
   \<and> dereference_handle_c demo
      \<lparr>module_str_bytes = ''????'' @ [NUL], temp_bytes = [NUL, NUL, NUL, NUL]\<rparr> ''mm#a.b'' =
     (Raised ''ModuleNotFoundError: mm??'', [ImportCall ''mm??''])
   \<and> dereference_handle_c demo
      \<lparr>module_str_bytes = [NUL, NUL, NUL], temp_bytes = ''?x'' @ [NUL, NUL]\<rparr> ''mm#a.b'' =
     (Crashed, [ImportCall ''mm'', GetAttrCall ''mm'' ''ax''])"
proof (intro conjI)
  show "dereference_handle_c demo
      \<lparr>module_str_bytes = [NUL, NUL, NUL], temp_bytes = [NUL, NUL, NUL, NUL]\<rparr> ''mm#a.b'' =
     (Returned ''mm.a.b'', [ImportCall ''mm'', GetAttrCall ''mm'' ''a'', GetAttrCall ''mm.a'' ''b''])"
    by code_simp
  show "dereference_handle_c demo
      \<lparr>module_str_bytes = ''????'' @ [NUL], temp_bytes = [NUL, NUL, NUL, NUL]\<rparr> ''mm#a.b'' =
     (Raised ''ModuleNotFoundError: mm??'', [ImportCall ''mm??''])"
    by code_simp
  show "dereference_handle_c demo
      \<lparr>module_str_bytes = [NUL, NUL, NUL], temp_bytes = ''?x'' @ [NUL, NUL]\<rparr> ''mm#a.b'' =
     (Crashed, [ImportCall ''mm'', GetAttrCall ''mm'' ''ax''])"
    by code_simp
qed

text \<open>
  C10. The C file and the C++ file are to resolve every handle alike. They do
  not. On \<open>m#x\<close> the C file, on any heap, fails to import \<open>m#x\<close> where the C++
  file returns \<open>m.x\<close>. On \<open>mm#abc.d.e\<close> with a zeroed heap the C file looks up
  \<open>dbc\<close> and then dereferences the null pointer where the C++ file returns
  \<open>mm.abc.d.e\<close>. On \<open>foo.bar#\<close> the C file looks up the empty name where the C++
  file returns the module.
\<close>

theorem c_and_cpp_resolve_differently:
  "fst (dereference_handle_c demo h ''m#x'') = Raised ''ModuleNotFoundError: m#x''
   \<and> fst (dereference_handle_cpp demo ''m#x'') = Returned ''m.x''
   \<and> fst (dereference_handle_c demo zeroed ''mm#abc.d.e'') = Crashed
   \<and> fst (dereference_handle_cpp demo ''mm#abc.d.e'') = Returned ''mm.abc.d.e''
   \<and> fst (dereference_handle_c demo zeroed ''foo.bar#'') = Raised ''AttributeError: ''
   \<and> fst (dereference_handle_cpp demo ''foo.bar#'') = Returned ''foo.bar''"
proof (intro conjI)
  show "fst (dereference_handle_c demo h ''m#x'') = Raised ''ModuleNotFoundError: m#x''"
    by (simp add: dereference_handle_c_def strstr_def demo_def)
  show "fst (dereference_handle_cpp demo ''m#x'') = Returned ''m.x''"
    by code_simp
  show "fst (dereference_handle_c demo zeroed ''mm#abc.d.e'') = Crashed"
    by code_simp
  show "fst (dereference_handle_cpp demo ''mm#abc.d.e'') = Returned ''mm.abc.d.e''"
    by code_simp
  show "fst (dereference_handle_c demo zeroed ''foo.bar#'') = Raised ''AttributeError: ''"
    by code_simp
  show "fst (dereference_handle_cpp demo ''foo.bar#'') = Returned ''foo.bar''"
    by code_simp
qed

end
